theory Spec2Isabelle
  imports Complex_Main
begin

section \<open>Values and errors\<close>

text \<open>
  The bot is a Python script. Its prices, multipliers and rates are Python floats; they are
  modelled as exact rationals, so every comparison below is the exact one. Epoch times are
  integers. A Python exception is a value of \<open>py_error\<close>.
\<close>

datatype py_error = IndexError | TypeError | ZeroDivisionError | NameError

text \<open>\<^verbatim>\<open>xs[i]\<close> for a non-negative index: Python raises IndexError past the end.\<close>

definition getitem :: "'a list \<Rightarrow> nat \<Rightarrow> py_error + 'a" where
  "getitem xs i = (if i < length xs then Inr (xs ! i) else Inl IndexError)"

section \<open>Increments\_Generator: the grids of candidate multipliers\<close>

text \<open>
  The six grids \<open>Cartesian_Trier\<close> iterates over. \<open>Increments_Generator\<close> appends
  \<open>0.002 * (i + 1)\<close> for \<open>i\<close> in \<open>range(20)\<close> to each of them, and \<open>0.005 * (i + 1)\<close>
  to \<open>cdlist\<close>.
\<close>

record grids =
  axlist :: "rat list"
  axxlist :: "rat list"
  aclist :: "rat list"
  bxlist :: "rat list"
  bxxlist :: "rat list"
  cdlist :: "rat list"

definition increments :: "rat \<Rightarrow> rat list" where
  "increments step = map (\<lambda>i. step * (of_nat i + 1)) [0..<20]"

definition Increments_Generator :: grids where
  "Increments_Generator =
     \<lparr> axlist = increments (2 / 1000), axxlist = increments (2 / 1000),
       aclist = increments (2 / 1000), bxlist = increments (2 / 1000),
       bxxlist = increments (2 / 1000), cdlist = increments (5 / 1000) \<rparr>"

section \<open>Cartesian\_Trier: the pattern scan\<close>

text \<open>
  The ten match-and-classify conditions of \<open>Cartesian_Trier\<close>, with Python's operator
  precedence written out: \<^verbatim>\<open>b >= 1+ax * a\<close> is \<open>b \<ge> 1 + (ax * a)\<close>,
  \<^verbatim>\<open>c > a * 1+ac\<close> is \<open>c > (a * 1) + ac\<close> and \<^verbatim>\<open>c >= b * 1+cd\<close> is
  \<open>c \<ge> (b * 1) + cd\<close>.
\<close>

definition abcd_win :: "rat \<Rightarrow> rat \<Rightarrow> rat \<Rightarrow> rat \<Rightarrow> rat \<Rightarrow> rat \<Rightarrow> rat \<Rightarrow> rat \<Rightarrow> rat \<Rightarrow> rat \<Rightarrow> bool" where
  "abcd_win a b c d ax axx ac bx bxx cd \<longleftrightarrow>
     a < b \<and> b \<ge> 1 + ax * a \<and> b \<le> 1 + axx * a \<and> b \<le> 1 + bxx * c \<and> c > a * 1 + ac
     \<and> b \<ge> 1 + bx * c \<and> d \<ge> 1 + cd * c"

definition abcd_loss :: "rat \<Rightarrow> rat \<Rightarrow> rat \<Rightarrow> rat \<Rightarrow> rat \<Rightarrow> rat \<Rightarrow> rat \<Rightarrow> rat \<Rightarrow> rat \<Rightarrow> rat \<Rightarrow> bool" where
  "abcd_loss a b c d ax axx ac bx bxx cd \<longleftrightarrow>
     a < b \<and> b \<ge> 1 + ax * a \<and> b \<le> 1 + axx * a \<and> b \<le> 1 + bxx * c \<and> c > a * 1 + ac
     \<and> b \<ge> 1 + bx * c \<and> d < 1 + cd * c"

definition dropped_abc_win :: "rat \<Rightarrow> rat \<Rightarrow> rat \<Rightarrow> rat \<Rightarrow> rat \<Rightarrow> rat \<Rightarrow> rat \<Rightarrow> bool" where
  "dropped_abc_win a b c ax axx bxx cd \<longleftrightarrow>
     a > b \<and> b \<ge> 1 + ax * a \<and> b \<le> 1 + axx * a \<and> b \<le> 1 + bxx * c \<and> c \<ge> b * 1 + cd"

definition dropped_abc_loss :: "rat \<Rightarrow> rat \<Rightarrow> rat \<Rightarrow> rat \<Rightarrow> rat \<Rightarrow> rat \<Rightarrow> rat \<Rightarrow> bool" where
  "dropped_abc_loss a b c ax axx bxx cd \<longleftrightarrow>
     a > b \<and> b \<ge> 1 + ax * a \<and> b \<le> 1 + axx * a \<and> b \<le> 1 + bxx * c \<and> c < b * 1 + cd"

definition abc_win :: "rat \<Rightarrow> rat \<Rightarrow> rat \<Rightarrow> rat \<Rightarrow> rat \<Rightarrow> rat \<Rightarrow> bool" where
  "abc_win a b c ax axx cd \<longleftrightarrow>
     a < b \<and> b \<ge> 1 + ax * a \<and> b \<le> 1 + axx * a \<and> c \<ge> b * 1 + cd"

definition abc_loss :: "rat \<Rightarrow> rat \<Rightarrow> rat \<Rightarrow> rat \<Rightarrow> rat \<Rightarrow> rat \<Rightarrow> bool" where
  "abc_loss a b c ax axx cd \<longleftrightarrow>
     a < b \<and> b \<ge> 1 + ax * a \<and> b \<le> 1 + axx * a \<and> c < b * 1 + cd"

definition ab_win :: "rat \<Rightarrow> rat \<Rightarrow> rat \<Rightarrow> rat \<Rightarrow> rat \<Rightarrow> bool" where
  "ab_win a b c ax cd \<longleftrightarrow> a < b \<and> b \<ge> 1 + ax * a \<and> c \<ge> b * 1 + cd"

definition ab_loss :: "rat \<Rightarrow> rat \<Rightarrow> rat \<Rightarrow> rat \<Rightarrow> rat \<Rightarrow> bool" where
  "ab_loss a b c ax cd \<longleftrightarrow> a < b \<and> b \<ge> 1 + ax * a \<and> c < b * 1 + cd"

definition dropped_ab_win :: "rat \<Rightarrow> rat \<Rightarrow> rat \<Rightarrow> rat \<Rightarrow> rat \<Rightarrow> bool" where
  "dropped_ab_win a b c ax cd \<longleftrightarrow> a > b \<and> b \<le> 1 + ax * a \<and> c \<ge> b * 1 + cd"

definition dropped_ab_loss :: "rat \<Rightarrow> rat \<Rightarrow> rat \<Rightarrow> rat \<Rightarrow> rat \<Rightarrow> bool" where
  "dropped_ab_loss a b c ax cd \<longleftrightarrow> a > b \<and> b \<le> 1 + ax * a \<and> c < b * 1 + cd"

text \<open>
  The ten global lists the scan extends. Each is flat: a sample is a run of ten, nine, six
  or five consecutive numbers, as \<^verbatim>\<open>list.extend\<close> leaves them.
\<close>

record tables =
  wins_risinglows_abcd :: "rat list"
  losses_risinglows_abcd :: "rat list"
  dropped_wins_risinglows_abc :: "rat list"
  dropped_losses_risinglows_abc :: "rat list"
  wins_risinglows_abc :: "rat list"
  losses_risinglows_abc :: "rat list"
  wins_risinglows_ab :: "rat list"
  losses_risinglows_ab :: "rat list"
  dropped_wins_risinglows_ab :: "rat list"
  dropped_losses_risinglows_ab :: "rat list"

definition empty_tables :: tables where
  "empty_tables =
     \<lparr> wins_risinglows_abcd = [], losses_risinglows_abcd = [],
       dropped_wins_risinglows_abc = [], dropped_losses_risinglows_abc = [],
       wins_risinglows_abc = [], losses_risinglows_abc = [],
       wins_risinglows_ab = [], losses_risinglows_ab = [],
       dropped_wins_risinglows_ab = [], dropped_losses_risinglows_ab = [] \<rparr>"

text \<open>The body of the innermost loop: ten independent \<open>if\<close> statements, in source order.\<close>

definition try_combination ::
  "rat \<Rightarrow> rat \<Rightarrow> rat \<Rightarrow> rat \<Rightarrow> rat \<times> rat \<times> rat \<times> rat \<times> rat \<times> rat \<Rightarrow> tables \<Rightarrow> tables" where
  "try_combination a b c d combo t0 =
     (case combo of (ax, axx, ac, bx, bxx, cd) \<Rightarrow>
        let t1 = (if abcd_win a b c d ax axx ac bx bxx cd
                  then t0\<lparr>wins_risinglows_abcd := wins_risinglows_abcd t0 @
                         [a, 1 + ax, b, 1 + axx, c, 1 + ac, 1 + bx, 1 + bxx, 1 + cd, d]\<rparr>
                  else t0);
            t2 = (if abcd_loss a b c d ax axx ac bx bxx cd
                  then t1\<lparr>losses_risinglows_abcd := losses_risinglows_abcd t1 @
                         [a, 1 + ax, b, 1 + axx, c, 1 + ac, 1 + bx, 1 + bxx, 1 + cd, d]\<rparr>
                  else t1);
            t3 = (if dropped_abc_win a b c ax axx bxx cd
                  then t2\<lparr>dropped_wins_risinglows_abc := dropped_wins_risinglows_abc t2 @
                         [a, 1 + ax, b, 1 + axx, c, 1 + ac, 1 + bx, 1 + bxx, 1 + cd]\<rparr>
                  else t2);
            t4 = (if dropped_abc_loss a b c ax axx bxx cd
                  then t3\<lparr>dropped_losses_risinglows_abc := dropped_losses_risinglows_abc t3 @
                         [a, 1 + ax, b, 1 + axx, c, 1 + ac, 1 + bx, 1 + bxx, 1 + cd]\<rparr>
                  else t3);
            t5 = (if abc_win a b c ax axx cd
                  then t4\<lparr>wins_risinglows_abc := wins_risinglows_abc t4 @
                         [a, 1 + ax, b, 1 + axx, c, 1 + cd]\<rparr>
                  else t4);
            t6 = (if abc_loss a b c ax axx cd
                  then t5\<lparr>losses_risinglows_abc := losses_risinglows_abc t5 @
                         [a, 1 + ax, b, 1 + axx, c, 1 + cd]\<rparr>
                  else t5);
            t7 = (if ab_win a b c ax cd
                  then t6\<lparr>wins_risinglows_ab := wins_risinglows_ab t6 @ [a, 1 + ax, b, c, 1 + cd]\<rparr>
                  else t6);
            t8 = (if ab_loss a b c ax cd
                  then t7\<lparr>losses_risinglows_ab := losses_risinglows_ab t7 @ [a, 1 + ax, b, c, 1 + cd]\<rparr>
                  else t7);
            t9 = (if dropped_ab_win a b c ax cd
                  then t8\<lparr>dropped_wins_risinglows_ab := dropped_wins_risinglows_ab t8 @
                         [a, 1 + ax, b, c, 1 + cd]\<rparr>
                  else t8)
        in (if dropped_ab_loss a b c ax cd
            then t9\<lparr>dropped_losses_risinglows_ab := dropped_losses_risinglows_ab t9 @
                   [a, 1 + ax, b, c, 1 + cd]\<rparr>
            else t9))"

text \<open>
  The six nested \<open>for\<close> loops, outermost first: \<open>ax\<close>, \<open>axx\<close>, \<open>ac\<close>, \<open>bx\<close>, \<open>bxx\<close>,
  \<open>cd\<close>.
\<close>

definition combinations :: "grids \<Rightarrow> (rat \<times> rat \<times> rat \<times> rat \<times> rat \<times> rat) list" where
  "combinations g =
     concat (map (\<lambda>ax. concat (map (\<lambda>axx. concat (map (\<lambda>ac. concat (map (\<lambda>bx.
       concat (map (\<lambda>bxx. map (\<lambda>cd. (ax, axx, ac, bx, bxx, cd)) (cdlist g))
         (bxxlist g))) (bxlist g))) (aclist g))) (axxlist g))) (axlist g))"

definition window_body :: "grids \<Rightarrow> rat \<Rightarrow> rat \<Rightarrow> rat \<Rightarrow> rat \<Rightarrow> tables \<Rightarrow> tables" where
  "window_body g a b c d t = foldl (\<lambda>t' combo. try_combination a b c d combo t') t (combinations g)"

text \<open>
  The outer loop \<^verbatim>\<open>for i, indexposition in enumerate(history)\<close> from position \<open>i\<close> on:
  it leaves by \<open>break\<close> when \<open>i + 3 \<ge> len(history)\<close>, reads the four prices at \<open>i\<close>,
  \<open>i + 1\<close>, \<open>i + 2\<close> and \<open>i + 3\<close> (each read checked, so a read past the end would be the
  result \<open>Inl IndexError\<close>), and runs the nested loops.
\<close>

function trier_loop :: "grids \<Rightarrow> rat list \<Rightarrow> nat \<Rightarrow> tables \<Rightarrow> py_error + tables" where
  "trier_loop g history i t =
     (if i < length history then
        (if i + 3 \<ge> length history then Inr t
         else
           (case getitem history i of Inl e \<Rightarrow> Inl e | Inr a \<Rightarrow>
           (case getitem history (i + 1) of Inl e \<Rightarrow> Inl e | Inr b \<Rightarrow>
           (case getitem history (i + 2) of Inl e \<Rightarrow> Inl e | Inr c \<Rightarrow>
           (case getitem history (i + 3) of Inl e \<Rightarrow> Inl e | Inr d \<Rightarrow>
              trier_loop g history (i + 1) (window_body g a b c d t))))))
      else Inr t)"
  by pat_completeness auto
termination
  by (relation "measure (\<lambda>(g, history, i, t). length history - i)") auto

declare trier_loop.simps [simp del]

definition Cartesian_Trier :: "grids \<Rightarrow> rat list \<Rightarrow> tables \<Rightarrow> py_error + tables" where
  "Cartesian_Trier g csv_imported_price_history_hourly t = trier_loop g csv_imported_price_history_hourly 0 t"

section \<open>The live bot: globals, exchange and statements\<close>

text \<open>
  The trading code works on module-level globals. \<open>bot\<close> holds the ones the modelled
  sections read or write, under their source names. A flag that the source keeps as
  \<open>None\<close>, \<open>True\<close> or \<open>False\<close> is a \<open>bool option\<close>; a price, which
  \<open>server_spot_price()\<close> gives as \<open>None\<close> on an API error, is a \<open>rat option\<close>;
  \<open>time_now\<close> and \<open>time_now_a\<close> are \<open>None\<close> until a cycle sets them;
  \<open>btc_amount_held\<close> is \<open>None\<close> while the global is not defined. The write-only globals
  \<open>price_mark_a\<close> .. \<open>price_mark_g\<close> and \<open>price_at_time_mark_a\<close> .. are left out.
\<close>

record bot =
  hourly_bot :: "bool option"
  minutely_bot :: "bool option"
  abcdthen_a_model :: "bool option"
  abcthen_model :: "bool option"
  abthen_model :: "bool option"
  aandupspike_model :: "bool option"
  abcdthen_range_constraints_gotten_a :: "bool option"
  abcthen_range_constraints_gotten_a :: "bool option"
  abthen_range_constraints_gotten_a :: "bool option"
  aandupspike_then_range_constraints_gotten_a :: "bool option"
  position_held :: bool
  tried_limit_sell :: "bool option"
  current_time :: int
  time_now :: "int option"
  time_now_a :: "int option"
  current_price :: "rat option"
  price_now :: "rat option"
  bought_time :: int
  bought_price :: "rat option"
  sold_time :: int
  sold_price :: "rat option"
  trade_amount_usd :: rat
  btc_amount_held :: "rat option"
  price_1_minute_ago :: "rat option"
  price_2_minutes_ago :: "rat option"
  price_3_minutes_ago :: "rat option"
  price_5_minutes_ago :: "rat option"
  price_65_minutes_ago :: "rat option"
  price_125_minutes_ago :: "rat option"
  time_mark :: int
  time_mark_a :: "int option"
  time_mark_b :: "int option"
  time_mark_c :: "int option"
  time_mark_d :: "int option"
  time_mark_e :: "int option"
  time_mark_f :: "int option"
  time_mark_g :: "int option"
  time_mark_list :: "int list"
  price_mark_list :: "rat option list"
  last_time_check :: rat
  minute_counter :: rat
  win_history_abcdthen_a :: "nat list"
  loss_history_abcdthen_a :: "nat list"
  win_history_abcthen :: "nat list"
  loss_history_abcthen :: "nat list"
  win_history_abthen :: "nat list"
  loss_history_abthen :: "nat list"
  win_history_aandupspike :: "nat list"
  loss_history_aandupspike :: "nat list"
  result_records :: "rat list"
  buy_sell_results :: "rat list"
  price_slippage_server_fault_detection :: nat
  price_slippage_server_fault :: "bool option"

text \<open>
  The exchange as one section or one cycle sees it: the balances \<open>get_usd_balance()\<close> and
  \<open>get_btc_balance()\<close> return, whether the result of a buy or of a sell is truthy, the
  server time and spot price of the cycle, the ones \<open>update_time_marks\<close> reads, and the
  reading of \<open>time.perf_counter()\<close> (one reading for the calls of one cycle).
\<close>

record exchange =
  usd_balance :: rat
  btc_balance :: rat
  buy_result :: bool
  sell_result :: bool
  server_time :: int
  server_spot_price :: "rat option"
  mark_time :: int
  mark_spot_price :: "rat option"
  perf_counter :: rat

datatype order =
    MarketBuy rat
  | MarketSell rat
  | LimitSell rat rat

text \<open>
  A run of statements: the globals, the orders sent to the exchange so far, and the
  exception that stopped the run, if any. Nothing executes after an exception.
\<close>

record run =
  globals :: bot
  orders :: "order list"
  raised :: "py_error option"

definition start :: "bot \<Rightarrow> run" where
  "start s = \<lparr> globals = s, orders = [], raised = None \<rparr>"

definition assign :: "(bot \<Rightarrow> bot) \<Rightarrow> run \<Rightarrow> run" where
  "assign f r = (if raised r = None then r\<lparr>globals := f (globals r)\<rparr> else r)"

text \<open>An assignment whose right-hand side may raise.\<close>

definition assign_or_raise :: "(bot \<Rightarrow> py_error + bot) \<Rightarrow> run \<Rightarrow> run" where
  "assign_or_raise f r =
     (if raised r = None then
        (case f (globals r) of Inl e \<Rightarrow> r\<lparr>raised := Some e\<rparr> | Inr s \<Rightarrow> r\<lparr>globals := s\<rparr>)
      else r)"

text \<open>A call that sends an order; evaluating its arguments may raise.\<close>

definition place :: "(bot \<Rightarrow> py_error + order) \<Rightarrow> run \<Rightarrow> run" where
  "place f r =
     (if raised r = None then
        (case f (globals r) of Inl e \<Rightarrow> r\<lparr>raised := Some e\<rparr>
         | Inr ord \<Rightarrow> r\<lparr>orders := orders r @ [ord]\<rparr>)
      else r)"

definition seq :: "(run \<Rightarrow> run) list \<Rightarrow> run \<Rightarrow> run" where
  "seq stmts r = foldl (\<lambda>r' stmt. stmt r') r stmts"

text \<open>\<^verbatim>\<open>if cond: body\<close>, and \<^verbatim>\<open>if cond: body else: other\<close>; the condition may raise.\<close>

definition py_if :: "(bot \<Rightarrow> py_error + bool) \<Rightarrow> (run \<Rightarrow> run) list \<Rightarrow> run \<Rightarrow> run" where
  "py_if cond body r =
     (if raised r = None then
        (case cond (globals r) of Inl e \<Rightarrow> r\<lparr>raised := Some e\<rparr>
         | Inr c \<Rightarrow> if c then seq body r else r)
      else r)"

definition py_if_else ::
  "(bot \<Rightarrow> py_error + bool) \<Rightarrow> (run \<Rightarrow> run) list \<Rightarrow> (run \<Rightarrow> run) list \<Rightarrow> run \<Rightarrow> run" where
  "py_if_else cond body other r =
     (if raised r = None then
        (case cond (globals r) of Inl e \<Rightarrow> r\<lparr>raised := Some e\<rparr>
         | Inr c \<Rightarrow> if c then seq body r else seq other r)
      else r)"

subsection \<open>Expressions\<close>

text \<open>
  Comparing or subtracting \<open>None\<close> raises TypeError. \<open>A and B\<close> evaluates \<open>B\<close> only
  when \<open>A\<close> is true.
\<close>

definition py_and :: "py_error + bool \<Rightarrow> py_error + bool \<Rightarrow> py_error + bool" where
  "py_and p q = (case p of Inl e \<Rightarrow> Inl e | Inr c \<Rightarrow> if c then q else Inr False)"

definition py_gt :: "rat option \<Rightarrow> rat option \<Rightarrow> py_error + bool" where
  "py_gt x y = (case x of None \<Rightarrow> Inl TypeError
                | Some a \<Rightarrow> (case y of None \<Rightarrow> Inl TypeError | Some b \<Rightarrow> Inr (a > b)))"

definition py_ge :: "rat option \<Rightarrow> rat option \<Rightarrow> py_error + bool" where
  "py_ge x y = (case x of None \<Rightarrow> Inl TypeError
                | Some a \<Rightarrow> (case y of None \<Rightarrow> Inl TypeError | Some b \<Rightarrow> Inr (a \<ge> b)))"

definition py_le :: "rat option \<Rightarrow> rat option \<Rightarrow> py_error + bool" where
  "py_le x y = (case x of None \<Rightarrow> Inl TypeError
                | Some a \<Rightarrow> (case y of None \<Rightarrow> Inl TypeError | Some b \<Rightarrow> Inr (a \<le> b)))"

text \<open>\<open>k * x\<close> for a float constant \<open>k\<close>.\<close>

definition scaled :: "rat \<Rightarrow> rat option \<Rightarrow> rat option" where
  "scaled k x = map_option (\<lambda>v. k * v) x"

text \<open>\<^verbatim>\<open>now - bought_time >= n\<close>.\<close>

definition elapsed_ge :: "int option \<Rightarrow> int \<Rightarrow> int \<Rightarrow> py_error + bool" where
  "elapsed_ge now bought n = (case now of None \<Rightarrow> Inl TypeError | Some t \<Rightarrow> Inr (t - bought \<ge> n))"

text \<open>Truthiness of a flag and of a price: \<open>None\<close>, \<open>False\<close> and \<open>0.0\<close> are falsy.\<close>

definition truthy :: "bool option \<Rightarrow> bool" where
  "truthy f = (f = Some True)"

definition truthy_price :: "rat option \<Rightarrow> bool" where
  "truthy_price p = (case p of None \<Rightarrow> False | Some v \<Rightarrow> v \<noteq> 0)"

text \<open>\<open>calculate_trade_amount()\<close>: 5 percent of the USD balance.\<close>

definition calculate_trade_amount :: "exchange \<Rightarrow> rat" where
  "calculate_trade_amount ex = usd_balance ex * (5 / 100)"

text \<open>The arguments of the sell calls: the held amount must be defined, the price a number.\<close>

definition market_sell_held :: "bot \<Rightarrow> py_error + order" where
  "market_sell_held s =
     (case btc_amount_held s of None \<Rightarrow> Inl NameError | Some amt \<Rightarrow> Inr (MarketSell amt))"

definition limit_sell_held :: "bot \<Rightarrow> py_error + order" where
  "limit_sell_held s =
     (case btc_amount_held s of None \<Rightarrow> Inl NameError
      | Some amt \<Rightarrow> (case current_price s of None \<Rightarrow> Inl TypeError
                     | Some p \<Rightarrow> Inr (LimitSell amt (p * (101 / 100)))))"

definition limit_sell_fixed :: "bot \<Rightarrow> py_error + order" where
  "limit_sell_fixed s =
     (case current_price s of None \<Rightarrow> Inl TypeError
      | Some p \<Rightarrow> Inr (LimitSell (5 / 100) (p * (101 / 100))))"

text \<open>\<^verbatim>\<open>btc_amount_held = trade_amount_usd / bought_price\<close>.\<close>

definition set_btc_amount_held :: "bot \<Rightarrow> py_error + bot" where
  "set_btc_amount_held s =
     (case bought_price s of None \<Rightarrow> Inl TypeError
      | Some p \<Rightarrow> if p = 0 then Inl ZeroDivisionError
                  else Inr (s\<lparr>btc_amount_held := Some (trade_amount_usd s / p)\<rparr>))"

text \<open>\<^verbatim>\<open>position_held == True and now - bought_time >= n\<close>.\<close>

definition held_for :: "bot \<Rightarrow> int option \<Rightarrow> int \<Rightarrow> py_error + bool" where
  "held_for s now n = py_and (Inr (position_held s)) (elapsed_ge now (bought_time s) n)"

section \<open>The module-level trading sections\<close>

text \<open>
  Each pattern has a section of module-level statements: a gate on the bot mode, the
  pattern's model flag and its range-constraints flag, a buy on the live match condition,
  and a ladder of sells. A section is modelled as a transformer of runs, for any values of
  the globals on entry.
\<close>

subsection \<open>abcd\_then\_a\_model buys and sells\<close>

definition abcd_buy_condition :: "bot \<Rightarrow> py_error + bool" where
  "abcd_buy_condition s =
     py_and (py_gt (current_price s) (price_5_minutes_ago s))
    (py_and (py_ge (price_65_minutes_ago s) (price_125_minutes_ago s))
            (py_ge (price_5_minutes_ago s) (price_125_minutes_ago s)))"


subsection \<open>abc and then model buys and sells\<close>


definition abc_buy_condition :: "bot \<Rightarrow> py_error + bool" where
  "abc_buy_condition s =
     py_and (py_gt (current_price s) (price_1_minute_ago s))
    (py_and (py_gt (price_1_minute_ago s) (price_2_minutes_ago s))
            (py_gt (price_2_minutes_ago s) (price_3_minutes_ago s)))"


subsection \<open>ab and then model buys and sells\<close>

definition ab_buy_condition :: "bot \<Rightarrow> py_error + bool" where
  "ab_buy_condition s =
     py_and (py_gt (current_price s) (price_1_minute_ago s))
            (py_gt (price_1_minute_ago s) (price_2_minutes_ago s))"


subsection \<open>aandupspike and then model buy sell\<close>


section \<open>Win and loss records, and the deactivation of a pattern\<close>

text \<open>
  After each trading section the script records the outcome of the last trade and tests
  the win rate. The conditions of the two recording \<open>if\<close>s:
  \<^verbatim>\<open>position_held == False and isinstance(sold_price, (int, float)) and
  isinstance(bought_price, (int, float)) and sold_price > bought_price\<close> (or \<open><\<close>).
\<close>

definition trade_won :: "bot \<Rightarrow> bool" where
  "trade_won s =
     (\<not> position_held s \<and>
      (case sold_price s of None \<Rightarrow> False
       | Some sold \<Rightarrow> (case bought_price s of None \<Rightarrow> False | Some bought \<Rightarrow> sold > bought)))"

definition trade_lost :: "bot \<Rightarrow> bool" where
  "trade_lost s =
     (\<not> position_held s \<and>
      (case sold_price s of None \<Rightarrow> False
       | Some sold \<Rightarrow> (case bought_price s of None \<Rightarrow> False | Some bought \<Rightarrow> sold < bought)))"

definition ordercount :: nat where
  "ordercount = 1"

text \<open>
  \<^verbatim>\<open>win_rate = len(win_history) / total if total > 0 else 0\<close> and the test
  \<^verbatim>\<open>win_rate < 0.60 and total >= 20\<close>.
\<close>

definition win_rate :: "nat list \<Rightarrow> nat list \<Rightarrow> rat" where
  "win_rate win_history loss_history =
     (let total_win_loss = length win_history + length loss_history
      in if total_win_loss > 0 then of_nat (length win_history) / of_nat total_win_loss else 0)"

definition rate_too_low :: "nat list \<Rightarrow> nat list \<Rightarrow> bool" where
  "rate_too_low win_history loss_history \<longleftrightarrow>
     win_rate win_history loss_history < 60 / 100 \<and> length win_history + length loss_history \<ge> 20"

text \<open>
  The sell inside the deactivation: \<open>btc_amount_held\<close> is replaced by the BTC balance when
  it is not defined or is \<open>0.0\<close>, then sold at market; \<open>position_held\<close> becomes false
  whatever the call returns.
\<close>

definition sell_if_still_held :: "exchange \<Rightarrow> run \<Rightarrow> run" where
  "sell_if_still_held ex =
     py_if (\<lambda>s. Inr (position_held s))
       [py_if (\<lambda>s. Inr (btc_amount_held s = None \<or> btc_amount_held s = Some 0))
          [assign (\<lambda>s. s\<lparr>btc_amount_held := Some (btc_balance ex)\<rparr>)],
        place market_sell_held,
        assign (\<lambda>s. s\<lparr>position_held := False\<rparr>)]"

definition record_abcdthen_a :: "run \<Rightarrow> run" where
  "record_abcdthen_a =
     seq
      [py_if (\<lambda>s. Inr (trade_won s))
         [assign (\<lambda>s. s\<lparr>win_history_abcdthen_a := win_history_abcdthen_a s @ [ordercount]\<rparr>)],
       py_if (\<lambda>s. Inr (trade_lost s))
         [assign (\<lambda>s. s\<lparr>loss_history_abcdthen_a := loss_history_abcdthen_a s @ [ordercount]\<rparr>)]]"

definition evaluate_abcdthen_a :: "exchange \<Rightarrow> run \<Rightarrow> run" where
  "evaluate_abcdthen_a ex =
     py_if (\<lambda>s. Inr (rate_too_low (win_history_abcdthen_a s) (loss_history_abcdthen_a s)))
       [assign (\<lambda>s. s\<lparr>abcdthen_a_model := Some False\<rparr>),
        sell_if_still_held ex]"

text \<open>
  The section as the script has it: both histories are created empty, the last trade is
  recorded, the rate is tested.
\<close>

definition performance_abcdthen_a :: "exchange \<Rightarrow> run \<Rightarrow> run" where
  "performance_abcdthen_a ex =
     seq
      [assign (\<lambda>s. s\<lparr>win_history_abcdthen_a := [], loss_history_abcdthen_a := []\<rparr>),
       record_abcdthen_a,
       evaluate_abcdthen_a ex]"


definition evaluate_abcthen :: "exchange \<Rightarrow> run \<Rightarrow> run" where
  "evaluate_abcthen ex =
     py_if (\<lambda>s. Inr (rate_too_low (win_history_abcthen s) (loss_history_abcthen s)))
       [assign (\<lambda>s. s\<lparr>abcthen_model := Some False\<rparr>),
        sell_if_still_held ex]"



definition evaluate_abthen :: "exchange \<Rightarrow> run \<Rightarrow> run" where
  "evaluate_abthen ex =
     py_if (\<lambda>s. Inr (rate_too_low (win_history_abthen s) (loss_history_abthen s)))
       [assign (\<lambda>s. s\<lparr>abthen_model := Some False\<rparr>),
        sell_if_still_held ex]"



definition evaluate_aandupspike :: "exchange \<Rightarrow> run \<Rightarrow> run" where
  "evaluate_aandupspike ex =
     py_if (\<lambda>s. Inr (rate_too_low (win_history_aandupspike s) (loss_history_aandupspike s)))
       [assign (\<lambda>s. s\<lparr>aandupspike_model := Some False\<rparr>),
        sell_if_still_held ex]"


section \<open>The slippage fault detector and the kill-switch\<close>

text \<open>
  The detector appends the truthy bought and sold prices to \<open>result_records\<close>, counts a
  fault when \<^verbatim>\<open>bought_price < sold_price and result_records[1] < bought_price\<close>, and
  clears the records once they hold two.
\<close>

definition detect_slippage :: "run \<Rightarrow> run" where
  "detect_slippage =
     seq
      [py_if (\<lambda>s. Inr (truthy_price (bought_price s)))
         [assign (\<lambda>s. case bought_price s of None \<Rightarrow> s
                        | Some p \<Rightarrow> s\<lparr>result_records := result_records s @ [p]\<rparr>)],
       py_if (\<lambda>s. Inr (truthy_price (sold_price s)))
         [assign (\<lambda>s. case sold_price s of None \<Rightarrow> s
                        | Some p \<Rightarrow> s\<lparr>result_records := result_records s @ [p]\<rparr>)],
       py_if (\<lambda>s. Inr (length (result_records s) > 1))
         [py_if (\<lambda>s. py_and (py_gt (sold_price s) (bought_price s))
                       (py_gt (bought_price s) (Some (result_records s ! 1))))
            [assign (\<lambda>s. s\<lparr>price_slippage_server_fault_detection :=
                               price_slippage_server_fault_detection s + 1\<rparr>)]],
       py_if (\<lambda>s. Inr (length (result_records s) \<ge> 2))
         [assign (\<lambda>s. s\<lparr>result_records := []\<rparr>)]]"

text \<open>
  The kill-switch: with at least 20 counted faults and at least 100 entries in
  \<open>buy_sell_results\<close> the fault flag is raised and both bot modes are set to \<open>False\<close>.
\<close>

definition kill_switch :: "run \<Rightarrow> run" where
  "kill_switch =
     seq
      [py_if (\<lambda>s. Inr (price_slippage_server_fault_detection s \<ge> 20
                      \<and> length (buy_sell_results s) \<ge> 100))
         [assign (\<lambda>s. s\<lparr>price_slippage_server_fault := Some True\<rparr>),
          assign (\<lambda>s. s\<lparr>hourly_bot := Some False\<rparr>),
          assign (\<lambda>s. s\<lparr>minutely_bot := Some False\<rparr>)],
       py_if (\<lambda>s. Inr (price_slippage_server_fault s = Some True))
         [assign (\<lambda>s. s\<lparr>hourly_bot := Some False\<rparr>),
          assign (\<lambda>s. s\<lparr>minutely_bot := Some False\<rparr>)]]"

text \<open>
  The section as the script has it: \<open>buy_sell_results\<close> is created empty and the counter
  starts at \<open>0\<close> each time the section runs.
\<close>

definition slippage_section :: "run \<Rightarrow> run" where
  "slippage_section =
     seq
      [assign (\<lambda>s. s\<lparr>buy_sell_results := []\<rparr>),
       assign (\<lambda>s. s\<lparr>price_slippage_server_fault_detection := 0\<rparr>),
       assign (\<lambda>s. s\<lparr>price_slippage_server_fault := None\<rparr>),
       detect_slippage,
       kill_switch]"

section \<open>The bot cycle\<close>

subsection \<open>update\_time\_marks\<close>




subsection \<open>execute\_hourly\_strategy and execute\_minutely\_strategy\<close>

text \<open>\<^verbatim>\<open>xs.index(x)\<close> for an \<open>x\<close> that is in \<open>xs\<close>.\<close>

fun index_of :: "int list \<Rightarrow> int \<Rightarrow> nat" where
  "index_of [] x = 0"
| "index_of (y # ys) x = (if y = x then 0 else Suc (index_of ys x))"

text \<open>
  \<^verbatim>\<open>price_mark_list[time_mark_list.index(m)] if m in time_mark_list else None\<close>.
\<close>

definition price_at_mark :: "bot \<Rightarrow> int option \<Rightarrow> py_error + rat option" where
  "price_at_mark s m =
     (case m of None \<Rightarrow> Inr None
      | Some t \<Rightarrow> if t \<in> set (time_mark_list s)
                  then getitem (price_mark_list s) (index_of (time_mark_list s) t)
                  else Inr None)"

text \<open>\<^verbatim>\<open>price_change = (current_price - bought_price) / bought_price\<close>.\<close>

definition price_change :: "bot \<Rightarrow> py_error + rat" where
  "price_change s =
     (case current_price s of None \<Rightarrow> Inl TypeError
      | Some cur \<Rightarrow> (case bought_price s of None \<Rightarrow> Inl TypeError
                     | Some bought \<Rightarrow> if bought = 0 then Inl ZeroDivisionError
                                       else Inr ((cur - bought) / bought)))"

text \<open>The buy of both strategy functions, once the live match condition holds.\<close>

definition strategy_buy :: "exchange \<Rightarrow> (run \<Rightarrow> run) list" where
  "strategy_buy ex =
     [assign (\<lambda>s. s\<lparr>trade_amount_usd := calculate_trade_amount ex\<rparr>),
      place (\<lambda>s. Inr (MarketBuy (trade_amount_usd s))),
      py_if (\<lambda>s. Inr (buy_result ex))
        [assign (\<lambda>s. s\<lparr>position_held := True\<rparr>),
         assign (\<lambda>s. s\<lparr>bought_time := current_time s\<rparr>),
         assign (\<lambda>s. s\<lparr>bought_price := current_price s\<rparr>),
         assign_or_raise set_btc_amount_held]]"

definition mark_sold :: "exchange \<Rightarrow> run \<Rightarrow> run" where
  "mark_sold ex =
     py_if (\<lambda>s. Inr (sell_result ex))
       [assign (\<lambda>s. s\<lparr>position_held := False\<rparr>),
        assign (\<lambda>s. s\<lparr>sold_time := current_time s\<rparr>),
        assign (\<lambda>s. s\<lparr>sold_price := current_price s\<rparr>)]"

text \<open>
  The sell conditions, the same text in both functions: the profit target, \<open>elif\<close> the
  time limit, \<open>elif\<close> the stop loss.
\<close>

definition strategy_sell :: "exchange \<Rightarrow> run \<Rightarrow> run" where
  "strategy_sell ex r =
     py_if (\<lambda>s. Inr (position_held s))
       [\<lambda>r'. if raised r' = None then
               (let s = globals r'; time_elapsed = current_time s - bought_time s
                in case price_change s of
                     Inl e \<Rightarrow> r'\<lparr>raised := Some e\<rparr>
                   | Inr change \<Rightarrow>
                       if change \<ge> 5 / 1000 \<and> time_elapsed \<ge> 60
                         then seq [place limit_sell_held, mark_sold ex] r'
                       else if time_elapsed \<ge> 120
                         then seq [place market_sell_held, mark_sold ex] r'
                       else if change \<le> - (2 / 100)
                         then seq [place market_sell_held, mark_sold ex] r'
                       else r')
             else r'] r"

definition execute_hourly_strategy :: "exchange \<Rightarrow> run \<Rightarrow> run" where
  "execute_hourly_strategy ex =
     seq
      [py_if (\<lambda>s. Inr (length (time_mark_list s) \<ge> 3))
         [\<lambda>r. if raised r = None then
                (let s = globals r in
                 case price_at_mark s (time_mark_c s) of Inl e \<Rightarrow> r\<lparr>raised := Some e\<rparr>
                 | Inr price_5 \<Rightarrow>
                 (case price_at_mark s (time_mark_b s) of Inl e \<Rightarrow> r\<lparr>raised := Some e\<rparr>
                 | Inr price_65 \<Rightarrow>
                 (case price_at_mark s (time_mark_a s) of Inl e \<Rightarrow> r\<lparr>raised := Some e\<rparr>
                 | Inr price_125 \<Rightarrow>
                   py_if (\<lambda>s. Inr (truthy_price price_5 \<and> truthy_price price_65
                                  \<and> truthy_price price_125))
                     [py_if (\<lambda>s. Inr (truthy (abcdthen_a_model s) \<and> \<not> position_held s))
                        [py_if (\<lambda>s. py_and (py_gt (current_price s) price_5)
                                     (py_and (py_ge price_65 price_125)
                                             (py_ge price_5 price_125)))
                           (strategy_buy ex)]] r)))
              else r],
       strategy_sell ex]"

definition execute_minutely_strategy :: "exchange \<Rightarrow> run \<Rightarrow> run" where
  "execute_minutely_strategy ex =
     seq
      [py_if (\<lambda>s. Inr (price_1_minute_ago s \<noteq> None))
         [py_if (\<lambda>s. Inr (truthy (aandupspike_model s) \<and> \<not> position_held s))
            [py_if (\<lambda>s. py_gt (current_price s) (price_1_minute_ago s))
               (strategy_buy ex)]],
       strategy_sell ex]"

subsection \<open>execute\_bot\_cycle and the main loop\<close>




section \<open>Calibration: viability and range constraints\<close>

text \<open>
  The viability check of a pattern, for the sample total, the win list and the list
  \<open>most_win_thresholds\<close> it reads:
  \<^verbatim>\<open>if totalcount >= 2000 and len(wins) / totalcount >= 0.70\<close> sets the model flag, and
  inside it \<^verbatim>\<open>if len(most_win_thresholds) > 0\<close> sets the range-constraints flag. The
  division is not evaluated when the total is below 2000.
\<close>

definition ratio_viable :: "nat \<Rightarrow> 'a list \<Rightarrow> bool" where
  "ratio_viable totalcount wins \<longleftrightarrow>
     totalcount \<ge> 2000 \<and> (of_nat (length wins) :: rat) / of_nat totalcount \<ge> 70 / 100"


definition viability_abc :: "nat \<Rightarrow> rat list \<Rightarrow> rat list \<Rightarrow> bot \<Rightarrow> bot" where
  "viability_abc totalcount_abc wins most_win_thresholds_abc s =
     (if ratio_viable totalcount_abc wins then
        (let s1 = s\<lparr>abcthen_model := Some True\<rparr>
         in if length most_win_thresholds_abc > 0
            then s1\<lparr>abcthen_range_constraints_gotten_a := Some True\<rparr> else s1)
      else s)"

definition viability_ab :: "nat \<Rightarrow> rat list \<Rightarrow> rat list \<Rightarrow> bot \<Rightarrow> bot" where
  "viability_ab totalcount_ab wins most_win_thresholds_ab s =
     (if ratio_viable totalcount_ab wins then
        (let s1 = s\<lparr>abthen_model := Some True\<rparr>
         in if length most_win_thresholds_ab > 0
            then s1\<lparr>abthen_range_constraints_gotten_a := Some True\<rparr> else s1)
      else s)"

definition viability_aspike :: "nat \<Rightarrow> rat list \<Rightarrow> rat list \<Rightarrow> bot \<Rightarrow> bot" where
  "viability_aspike totalcount_aspike wins most_win_thresholds_aandupspike s =
     (if ratio_viable totalcount_aspike wins then
        (let s1 = s\<lparr>aandupspike_model := Some True\<rparr>
         in if length most_win_thresholds_aandupspike > 0
            then s1\<lparr>aandupspike_then_range_constraints_gotten_a := Some True\<rparr> else s1)
      else s)"



section \<open>constraints\_guesser: the buckets per ceiling\<close>












text \<open>
  The ab loop: \<^verbatim>\<open>ax <= 1.004 and b >= 1.004 * a and c >= b * cd\<close>, the ceiling standing in
  both of the first two conditions.
\<close>

type_synonym ab_group = "rat \<times> rat \<times> rat \<times> rat \<times> rat"


definition ab_loss_condition :: "rat \<Rightarrow> ab_group \<Rightarrow> bool" where
  "ab_loss_condition limit g =
     (case g of (a, ax, b, c, cd) \<Rightarrow> ax \<le> limit \<and> b \<ge> limit * a \<and> c < b * cd)"


definition loss_constraint_thresholds_ab :: "rat \<Rightarrow> ab_group list \<Rightarrow> ab_group list" where
  "loss_constraint_thresholds_ab limit ab_then_a_model = filter (ab_loss_condition limit) ab_then_a_model"

section \<open>What the specification words say, for comparison\<close>

text \<open>
  The specification applies a multiplier \<open>m\<close> as \<open>candidate \<ge> (1 + m) * reference\<close>. For the
  ab shape that reads as follows.
\<close>

definition ab_win_as_specified :: "rat \<Rightarrow> rat \<Rightarrow> rat \<Rightarrow> rat \<Rightarrow> rat \<Rightarrow> bool" where
  "ab_win_as_specified a b c ax cd \<longleftrightarrow> a < b \<and> b \<ge> (1 + ax) * a \<and> c \<ge> (1 + cd) * b"

definition ab_loss_as_specified :: "rat \<Rightarrow> rat \<Rightarrow> rat \<Rightarrow> rat \<Rightarrow> rat \<Rightarrow> bool" where
  "ab_loss_as_specified a b c ax cd \<longleftrightarrow> a < b \<and> b \<ge> (1 + ax) * a \<and> c < (1 + cd) * b"



section \<open>The globals as the script initialises them\<close>

text \<open>
  The values the script gives the globals before its trading sections run, for the server
  time and the spot price of the start: the hourly mode is on, no model flag is set, no
  position is held, the held amount is not defined yet.
\<close>

definition initial_bot :: "int \<Rightarrow> rat option \<Rightarrow> bot" where
  "initial_bot server_time_value server_spot_price_value =
     \<lparr> hourly_bot = Some True, minutely_bot = Some False,
       abcdthen_a_model = None, abcthen_model = None, abthen_model = None,
       aandupspike_model = None,
       abcdthen_range_constraints_gotten_a = None, abcthen_range_constraints_gotten_a = None,
       abthen_range_constraints_gotten_a = None,
       aandupspike_then_range_constraints_gotten_a = None,
       position_held = False, tried_limit_sell = None,
       current_time = server_time_value, time_now = None, time_now_a = None,
       current_price = server_spot_price_value, price_now = server_spot_price_value,
       bought_time = server_time_value, bought_price = server_spot_price_value,
       sold_time = server_time_value, sold_price = server_spot_price_value,
       trade_amount_usd = 0, btc_amount_held = None,
       price_1_minute_ago = None, price_2_minutes_ago = None, price_3_minutes_ago = None,
       price_5_minutes_ago = None, price_65_minutes_ago = None, price_125_minutes_ago = None,
       time_mark = 0, time_mark_a = None, time_mark_b = None, time_mark_c = None,
       time_mark_d = None, time_mark_e = None, time_mark_f = None, time_mark_g = None,
       time_mark_list = [], price_mark_list = [],
       last_time_check = 0, minute_counter = 0,
       win_history_abcdthen_a = [], loss_history_abcdthen_a = [],
       win_history_abcthen = [], loss_history_abcthen = [],
       win_history_abthen = [], loss_history_abthen = [],
       win_history_aandupspike = [], loss_history_aandupspike = [],
       result_records = [], buy_sell_results = [],
       price_slippage_server_fault_detection = 0, price_slippage_server_fault = None \<rparr>"

section \<open>Example states\<close>


text \<open>
  The abcd pattern with 15 recorded wins and 20 recorded losses, a position of half a
  bitcoin open.
\<close>

definition losing_pattern :: bot where
  "losing_pattern =
     (initial_bot 1000 (Some 100))\<lparr>abcdthen_a_model := Some True,
        abcdthen_range_constraints_gotten_a := Some True,
        win_history_abcdthen_a := replicate 15 1, loss_history_abcdthen_a := replicate 20 1,
        position_held := True, btc_amount_held := Some (1 / 2)\<rparr>"

text \<open>
  An exchange observation: 1000 USD and one bitcoin on the account, orders accepted, the
  spot price at 103.
\<close>

definition rising_exchange :: exchange where
  "rising_exchange =
     \<lparr> usd_balance = 1000, btc_balance = 1, buy_result = True, sell_result = True,
       server_time = 2000, server_spot_price = Some 103,
       mark_time = 2000, mark_spot_price = Some 103, perf_counter = 0 \<rparr>"




text \<open>
  One combination of multipliers out of the grids: \<open>0.02\<close> for the five pattern
  multipliers and \<open>0.005\<close> for the result multiplier.
\<close>

definition one_combination :: grids where
  "one_combination =
     \<lparr> axlist = [1 / 50], axxlist = [1 / 50], aclist = [1 / 50], bxlist = [1 / 50],
       bxxlist = [1 / 50], cdlist = [1 / 200] \<rparr>"





section \<open>Stepping through a run\<close>

text \<open>
  How each statement acts on a run whose three parts are known. With these equations the
  simplifier executes a section statement by statement.
\<close>

lemma seq_Nil: "seq [] r = r"
  by (simp add: seq_def)

lemma seq_Cons: "seq (stmt # stmts) r = seq stmts (stmt r)"
  by (simp add: seq_def)

lemma seq_append: "seq (xs @ ys) r = seq ys (seq xs r)"
  by (simp add: seq_def)

lemma seq_if: "seq stmts (if c then r1 else r2) = (if c then seq stmts r1 else seq stmts r2)"
  by simp

lemma assign_run:
  "assign f \<lparr>globals = s, orders = sent, raised = None\<rparr> = \<lparr>globals = f s, orders = sent, raised = None\<rparr>"
  "assign f \<lparr>globals = s, orders = sent, raised = Some e\<rparr> = \<lparr>globals = s, orders = sent, raised = Some e\<rparr>"
  by (simp_all add: assign_def)

lemma assign_or_raise_run:
  "assign_or_raise g \<lparr>globals = s, orders = sent, raised = None\<rparr> =
     (case g s of Inl e \<Rightarrow> \<lparr>globals = s, orders = sent, raised = Some e\<rparr>
      | Inr s' \<Rightarrow> \<lparr>globals = s', orders = sent, raised = None\<rparr>)"
  "assign_or_raise g \<lparr>globals = s, orders = sent, raised = Some e\<rparr> = \<lparr>globals = s, orders = sent, raised = Some e\<rparr>"
  by (simp_all add: assign_or_raise_def split: sum.splits)

lemma place_run:
  "place h \<lparr>globals = s, orders = sent, raised = None\<rparr> =
     (case h s of Inl e \<Rightarrow> \<lparr>globals = s, orders = sent, raised = Some e\<rparr>
      | Inr ord \<Rightarrow> \<lparr>globals = s, orders = sent @ [ord], raised = None\<rparr>)"
  "place h \<lparr>globals = s, orders = sent, raised = Some e\<rparr> = \<lparr>globals = s, orders = sent, raised = Some e\<rparr>"
  by (simp_all add: place_def split: sum.splits)

lemma py_if_run:
  "py_if cond body \<lparr>globals = s, orders = sent, raised = None\<rparr> =
     (case cond s of Inl e \<Rightarrow> \<lparr>globals = s, orders = sent, raised = Some e\<rparr>
      | Inr c \<Rightarrow> if c then seq body \<lparr>globals = s, orders = sent, raised = None\<rparr>
                 else \<lparr>globals = s, orders = sent, raised = None\<rparr>)"
  "py_if cond body \<lparr>globals = s, orders = sent, raised = Some e\<rparr> = \<lparr>globals = s, orders = sent, raised = Some e\<rparr>"
  by (simp_all add: py_if_def split: sum.splits)

lemma py_if_else_run:
  "py_if_else cond body other \<lparr>globals = s, orders = sent, raised = None\<rparr> =
     (case cond s of Inl e \<Rightarrow> \<lparr>globals = s, orders = sent, raised = Some e\<rparr>
      | Inr c \<Rightarrow> if c then seq body \<lparr>globals = s, orders = sent, raised = None\<rparr>
                 else seq other \<lparr>globals = s, orders = sent, raised = None\<rparr>)"
  "py_if_else cond body other \<lparr>globals = s, orders = sent, raised = Some e\<rparr> = \<lparr>globals = s, orders = sent, raised = Some e\<rparr>"
  by (simp_all add: py_if_else_def split: sum.splits)

lemmas run_simps = start_def seq_Nil seq_Cons seq_append seq_if assign_run assign_or_raise_run place_run
  py_if_run py_if_else_run

lemmas expr_defs = py_and_def py_gt_def py_ge_def py_le_def scaled_def elapsed_ge_def held_for_def
  truthy_def truthy_price_def calculate_trade_amount_def market_sell_held_def limit_sell_held_def
  limit_sell_fixed_def set_btc_amount_held_def

lemma abcd_buy_condition_tried [simp]:
  "abcd_buy_condition (s\<lparr>tried_limit_sell := x\<rparr>) = abcd_buy_condition s"
  by (simp add: abcd_buy_condition_def)

lemma abc_buy_condition_tried [simp]:
  "abc_buy_condition (s\<lparr>tried_limit_sell := x\<rparr>) = abc_buy_condition s"
  by (simp add: abc_buy_condition_def)

lemma ab_buy_condition_tried [simp]:
  "ab_buy_condition (s\<lparr>tried_limit_sell := x\<rparr>) = ab_buy_condition s"
  by (simp add: ab_buy_condition_def)



lemma strategy_sell_run:
  "strategy_sell ex \<lparr>globals = s, orders = sent, raised = None\<rparr> =
     (if position_held s then
        (case price_change s of
           Inl e \<Rightarrow> \<lparr>globals = s, orders = sent, raised = Some e\<rparr>
         | Inr change \<Rightarrow>
             if change \<ge> 5 / 1000 \<and> current_time s - bought_time s \<ge> 60
               then seq [place limit_sell_held, mark_sold ex] \<lparr>globals = s, orders = sent, raised = None\<rparr>
             else if current_time s - bought_time s \<ge> 120
               then seq [place market_sell_held, mark_sold ex] \<lparr>globals = s, orders = sent, raised = None\<rparr>
             else if change \<le> - (2 / 100)
               then seq [place market_sell_held, mark_sold ex] \<lparr>globals = s, orders = sent, raised = None\<rparr>
             else \<lparr>globals = s, orders = sent, raised = None\<rparr>)
      else \<lparr>globals = s, orders = sent, raised = None\<rparr>)"
  by (simp add: strategy_sell_def run_simps Let_def split: sum.splits)

lemma sell_if_still_held_run:
  "sell_if_still_held ex \<lparr>globals = s, orders = sent, raised = None\<rparr> =
     (if position_held s then
        \<lparr>globals = s\<lparr>btc_amount_held :=
                         Some (case btc_amount_held s of None \<Rightarrow> btc_balance ex
                               | Some held \<Rightarrow> if held = 0 then btc_balance ex else held),
                       position_held := False\<rparr>,
         orders = sent @ [MarketSell (case btc_amount_held s of None \<Rightarrow> btc_balance ex
                               | Some held \<Rightarrow> if held = 0 then btc_balance ex else held)],
         raised = None\<rparr>
      else \<lparr>globals = s, orders = sent, raised = None\<rparr>)"
  by (cases "btc_amount_held s") (simp_all add: sell_if_still_held_def run_simps market_sell_held_def)

lemma rate_too_low_iff:
  "rate_too_low w l \<longleftrightarrow>
     20 \<le> length w + length l \<and> (of_nat (length w) :: rat) / of_nat (length w + length l) < 60 / 100"
  by (auto simp: rate_too_low_def win_rate_def Let_def)

section \<open>A cycle with both modes off\<close>








lemma strategy_sell_raised:
  "strategy_sell ex \<lparr>globals = s, orders = sent, raised = Some e\<rparr> = \<lparr>globals = s, orders = sent, raised = Some e\<rparr>"
  by (simp add: strategy_sell_def run_simps)


section \<open>Any section sells the position that is held\<close>







section \<open>The strategy functions never buy while a position is held\<close>

lemma hourly_buy_needs_no_position:
  "position_held s \<Longrightarrow> MarketBuy x \<notin> set (orders (execute_hourly_strategy ex (start s)))"
  by (auto simp: execute_hourly_strategy_def strategy_sell_run strategy_sell_raised mark_sold_def run_simps
      truthy_def market_sell_held_def limit_sell_held_def Let_def
      split: sum.splits option.splits if_splits)

lemma minutely_buy_needs_no_position:
  "position_held s \<Longrightarrow> MarketBuy x \<notin> set (orders (execute_minutely_strategy ex (start s)))"
  by (auto simp: execute_minutely_strategy_def strategy_sell_run strategy_sell_raised mark_sold_def run_simps
      truthy_def market_sell_held_def limit_sell_held_def Let_def
      split: sum.splits option.splits if_splits)

section \<open>The slippage section as the script runs it\<close>

lemma detect_slippage_frame:
  "hourly_bot (globals (detect_slippage \<lparr>globals = s, orders = [], raised = None\<rparr>)) = hourly_bot s
   \<and> minutely_bot (globals (detect_slippage \<lparr>globals = s, orders = [], raised = None\<rparr>)) = minutely_bot s
   \<and> price_slippage_server_fault (globals (detect_slippage \<lparr>globals = s, orders = [], raised = None\<rparr>))
       = price_slippage_server_fault s
   \<and> price_slippage_server_fault_detection (globals (detect_slippage \<lparr>globals = s, orders = [], raised = None\<rparr>))
       \<le> price_slippage_server_fault_detection s + 1"
  by (cases "bought_price s"; cases "sold_price s")
     (simp_all add: detect_slippage_def run_simps expr_defs)

lemma kill_switch_idle:
  "price_slippage_server_fault_detection (globals r) < 20 \<Longrightarrow>
   price_slippage_server_fault (globals r) = None \<Longrightarrow> globals (kill_switch r) = globals r"
  by (simp add: kill_switch_def py_if_def seq_def)

text \<open>
  The counter restarts at \<open>0\<close> and \<open>buy_sell_results\<close> is created empty each time the
  section runs, so the section as a whole leaves both modes as they were.
\<close>

lemma slippage_section_keeps_modes:
  "hourly_bot (globals (slippage_section (start s))) = hourly_bot s
   \<and> minutely_bot (globals (slippage_section (start s))) = minutely_bot s"
proof -
  let ?s0 = "s\<lparr>buy_sell_results := [], price_slippage_server_fault_detection := 0,
      price_slippage_server_fault := None\<rparr>"
  let ?r = "detect_slippage \<lparr>globals = ?s0, orders = [], raised = None\<rparr>"
  have sec: "slippage_section (start s) = kill_switch ?r"
    by (simp add: slippage_section_def start_def seq_Cons seq_Nil assign_run)
  from detect_slippage_frame [of ?s0]
  have f: "hourly_bot (globals ?r) = hourly_bot s" "minutely_bot (globals ?r) = minutely_bot s"
    "price_slippage_server_fault (globals ?r) = None"
    "price_slippage_server_fault_detection (globals ?r) < 20"
    by simp_all
  from kill_switch_idle [OF f(4) f(3)] f(1,2) show ?thesis
    by (simp add: sec)
qed

text \<open>
  Likewise the two histories of a pattern are created empty immediately before the trade
  is recorded, so a whole performance section never sees more than one entry and leaves
  the model flag as it was.
\<close>

lemma performance_section_keeps_model:
  "abcdthen_a_model (globals (performance_abcdthen_a ex (start s))) = abcdthen_a_model s"
  by (simp add: performance_abcdthen_a_def record_abcdthen_a_def evaluate_abcdthen_a_def
      run_simps rate_too_low_def)

section \<open>A buy while a position is held\<close>


section \<open>Trading without range constraints\<close>


section \<open>A low win rate disables the pattern and sells\<close>

text \<open>
  C3. For each of the four patterns that trade (abcd, abc, ab, aandupspike): when the
  recorded wins and losses number at least 20 and \<open>len(wins) / (len(wins) + len(losses))\<close>
  is below \<open>0.60\<close>, the evaluation sets the pattern's model flag to \<open>False\<close> and, if a
  position is held, sends one market sell of \<open>btc_amount_held\<close> (of the BTC balance when
  that amount is not defined or zero) in the same evaluation; afterwards no position is
  held, and nothing was raised. With no position held no order is sent.
\<close>

theorem low_win_rate_disables_and_sells:
  assumes "20 \<le> length w + length l"
    and "(of_nat (length w) :: rat) / of_nat (length w + length l) < 60 / 100"
  shows
   "(win_history_abcdthen_a s = w \<and> loss_history_abcdthen_a s = l \<longrightarrow>
       abcdthen_a_model (globals (evaluate_abcdthen_a ex (start s))) = Some False
     \<and> \<not> position_held (globals (evaluate_abcdthen_a ex (start s)))
     \<and> raised (evaluate_abcdthen_a ex (start s)) = None
     \<and> orders (evaluate_abcdthen_a ex (start s)) =
         (if position_held s
          then [MarketSell (case btc_amount_held s of None \<Rightarrow> btc_balance ex
                            | Some held \<Rightarrow> if held = 0 then btc_balance ex else held)]
          else []))
  \<and> (win_history_abcthen s = w \<and> loss_history_abcthen s = l \<longrightarrow>
       abcthen_model (globals (evaluate_abcthen ex (start s))) = Some False
     \<and> \<not> position_held (globals (evaluate_abcthen ex (start s)))
     \<and> raised (evaluate_abcthen ex (start s)) = None
     \<and> orders (evaluate_abcthen ex (start s)) =
         (if position_held s
          then [MarketSell (case btc_amount_held s of None \<Rightarrow> btc_balance ex
                            | Some held \<Rightarrow> if held = 0 then btc_balance ex else held)]
          else []))
  \<and> (win_history_abthen s = w \<and> loss_history_abthen s = l \<longrightarrow>
       abthen_model (globals (evaluate_abthen ex (start s))) = Some False
     \<and> \<not> position_held (globals (evaluate_abthen ex (start s)))
     \<and> raised (evaluate_abthen ex (start s)) = None
     \<and> orders (evaluate_abthen ex (start s)) =
         (if position_held s
          then [MarketSell (case btc_amount_held s of None \<Rightarrow> btc_balance ex
                            | Some held \<Rightarrow> if held = 0 then btc_balance ex else held)]
          else []))
  \<and> (win_history_aandupspike s = w \<and> loss_history_aandupspike s = l \<longrightarrow>
       aandupspike_model (globals (evaluate_aandupspike ex (start s))) = Some False
     \<and> \<not> position_held (globals (evaluate_aandupspike ex (start s)))
     \<and> raised (evaluate_aandupspike ex (start s)) = None
     \<and> orders (evaluate_aandupspike ex (start s)) =
         (if position_held s
          then [MarketSell (case btc_amount_held s of None \<Rightarrow> btc_balance ex
                            | Some held \<Rightarrow> if held = 0 then btc_balance ex else held)]
          else []))"
proof -
  have low: "rate_too_low w l" using assms by (simp add: rate_too_low_iff)
  show ?thesis
    using low
    by (simp add: evaluate_abcdthen_a_def evaluate_abcthen_def evaluate_abthen_def
        evaluate_aandupspike_def run_simps sell_if_still_held_run)
qed

text \<open>
  The specification's example: 15 wins and 20 losses, a rate of 0.4286, with a position
  of half a bitcoin open.
\<close>

theorem low_win_rate_disables_and_sells_witness:
  "(20::nat) \<le> 15 + 20 \<and> (15::rat) / 35 < 60 / 100
   \<and> abcdthen_a_model (globals (evaluate_abcdthen_a rising_exchange (start losing_pattern))) = Some False
   \<and> \<not> position_held (globals (evaluate_abcdthen_a rising_exchange (start losing_pattern)))
   \<and> orders (evaluate_abcdthen_a rising_exchange (start losing_pattern)) = [MarketSell (1 / 2)]"
  using low_win_rate_disables_and_sells [of "replicate 15 1" "replicate 20 1" losing_pattern rising_exchange]
  by (simp add: losing_pattern_def initial_bot_def)

section \<open>The scan stays inside the price history\<close>

text \<open>
  The outer loop of \<open>Cartesian_Trier\<close> is a fold of the window body over the positions
  \<open>0 .. len(history) - 4\<close>: no read fails, and nothing else is visited.
\<close>

lemma trier_loop_fold:
  "trier_loop g h i t =
     Inr (foldl (\<lambda>t' j. window_body g (h ! j) (h ! (j + 1)) (h ! (j + 2)) (h ! (j + 3)) t') t
            [i..<length h - 3])"
proof (induction g h i t rule: trier_loop.induct)
  case (1 g history i t)
  show ?case
  proof (cases "i + 3 < length history")
    case True
    then have upt: "[i..<length history - 3] = i # [i + 1..<length history - 3]"
      by (simp add: upt_conv_Cons)
    from True have "trier_loop g history i t =
        trier_loop g history (i + 1)
          (window_body g (history ! i) (history ! (i + 1)) (history ! (i + 2)) (history ! (i + 3)) t)"
      by (subst trier_loop.simps) (simp add: getitem_def)
    also have "\<dots> = Inr (foldl (\<lambda>t' j. window_body g (history ! j) (history ! (j + 1))
          (history ! (j + 2)) (history ! (j + 3)) t')
        (window_body g (history ! i) (history ! (i + 1)) (history ! (i + 2)) (history ! (i + 3)) t)
        [i + 1..<length history - 3])"
      using True by (intro "1.IH") (simp_all add: getitem_def)
    finally show ?thesis by (simp add: upt)
  next
    case False
    then have e: "[i..<length history - 3] = []" by simp
    from False have l: "trier_loop g history i t = Inr t"
      by (subst trier_loop.simps) simp
    show ?thesis unfolding l e by simp
  qed
qed

text \<open>
  C4. For every price history and every grid, \<open>Cartesian_Trier\<close> never reads past the end
  of the history: it returns without an IndexError, its result is the window body folded
  over the positions \<open>i\<close> from \<open>0\<close> up to \<open>len(history) - 4\<close>, for each of which the last
  index it reads, \<open>i + 3\<close>, satisfies \<open>i + 3 + 1 \<le> len(history)\<close>; and on a history of at
  most three prices (every \<open>take 3 history\<close>) it leaves the win and loss lists empty.
\<close>

theorem Cartesian_Trier_in_bounds:
  "Cartesian_Trier g history t =
     Inr (foldl (\<lambda>t' i. window_body g (history ! i) (history ! (i + 1)) (history ! (i + 2))
                          (history ! (i + 3)) t') t [0..<length history - 3])
   \<and> list_all (\<lambda>i. i + 3 + 1 \<le> length history) [0..<length history - 3]
   \<and> Cartesian_Trier g (take 3 history) empty_tables = Inr empty_tables"
  by (auto simp: Cartesian_Trier_def trier_loop_fold list_all_iff)

section \<open>The kill-switch\<close>




section \<open>How the scan applies a multiplier\<close>

text \<open>
  C6. The claim: a multiplier \<open>m\<close> is applied as \<open>candidate \<ge> (1 + m) * reference\<close>. The
  conditions of the scan are written \<^verbatim>\<open>b >= 1+ax * a\<close> and \<^verbatim>\<open>c >= b * 1+cd\<close>, which
  Python reads as \<open>b \<ge> 1 + (ax * a)\<close> and \<open>c \<ge> b + cd\<close>. On the prices 100, 101, 102,
  103 with \<open>ax = 0.02\<close> and \<open>cd = 0.005\<close> (both in the generated grids) the scan emits
  the ab win sample \<open>(100, 1.02, 101, 102, 1.005)\<close>, although \<open>101 < 1.02 * 100\<close>: as
  the claim applies the multiplier this window matches neither as a win nor as a loss.
\<close>

theorem scan_adds_one_instead_of_scaling:
  "1 / 50 \<in> set (axlist Increments_Generator) \<and> 1 / 200 \<in> set (cdlist Increments_Generator)
   \<and> Cartesian_Trier one_combination [100, 101, 102, 103] empty_tables =
       Inr (empty_tables\<lparr>wins_risinglows_ab := [100, 51 / 50, 101, 102, 201 / 200]\<rparr>)
   \<and> ab_win 100 101 102 (1 / 50) (1 / 200)
   \<and> \<not> ab_win_as_specified 100 101 102 (1 / 50) (1 / 200)
   \<and> \<not> ab_loss_as_specified 100 101 102 (1 / 50) (1 / 200)"
proof -
  have grid: "1 / 50 \<in> set (axlist Increments_Generator)"
    "1 / 200 \<in> set (cdlist Increments_Generator)"
    by (auto simp: Increments_Generator_def increments_def
        intro!: image_eqI [where x = 9] image_eqI [where x = 0])
  have conds:
    "\<not> abcd_win 100 101 102 103 (1 / 50) (1 / 50) (1 / 50) (1 / 50) (1 / 50) (1 / 200)"
    "\<not> abcd_loss 100 101 102 103 (1 / 50) (1 / 50) (1 / 50) (1 / 50) (1 / 50) (1 / 200)"
    "\<not> dropped_abc_win 100 101 102 (1 / 50) (1 / 50) (1 / 50) (1 / 200)"
    "\<not> dropped_abc_loss 100 101 102 (1 / 50) (1 / 50) (1 / 50) (1 / 200)"
    "\<not> abc_win 100 101 102 (1 / 50) (1 / 50) (1 / 200)"
    "\<not> abc_loss 100 101 102 (1 / 50) (1 / 50) (1 / 200)"
    "ab_win 100 101 102 (1 / 50) (1 / 200)"
    "\<not> ab_loss 100 101 102 (1 / 50) (1 / 200)"
    "\<not> dropped_ab_win 100 101 102 (1 / 50) (1 / 200)"
    "\<not> dropped_ab_loss 100 101 102 (1 / 50) (1 / 200)"
    by (simp_all add: abcd_win_def abcd_loss_def dropped_abc_win_def dropped_abc_loss_def
        abc_win_def abc_loss_def ab_win_def ab_loss_def dropped_ab_win_def dropped_ab_loss_def)
  have body: "try_combination 100 101 102 103 (1 / 50, 1 / 50, 1 / 50, 1 / 50, 1 / 50, 1 / 200)
      empty_tables =
      empty_tables\<lparr>wins_risinglows_ab := [100, 51 / 50, 101, 102, 201 / 200]\<rparr>"
    using conds by (simp add: try_combination_def empty_tables_def)
  have win: "window_body one_combination 100 101 102 103 empty_tables =
      empty_tables\<lparr>wins_risinglows_ab := [100, 51 / 50, 101, 102, 201 / 200]\<rparr>"
    by (simp add: window_body_def combinations_def one_combination_def body)
  have "Cartesian_Trier one_combination [100, 101, 102, 103] empty_tables =
     Inr (empty_tables\<lparr>wins_risinglows_ab := [100, 51 / 50, 101, 102, 201 / 200]\<rparr>)"
    by (simp add: Cartesian_Trier_def trier_loop_fold win)
  then show ?thesis
    using conds grid by (simp add: ab_win_as_specified_def ab_loss_as_specified_def)
qed

section \<open>No ceiling is ever selected\<close>



section \<open>The panic sell\<close>




section \<open>The buckets and the ceiling\<close>




section \<open>One position and one outcome for all patterns\<close>



end
